theory Spec2Isabelle
  imports Main "HOL-Library.Word"
begin

section \<open>The IMF Asset Map demuxer (libavformat/imfdec.c)\<close>

text \<open>
  The development embeds \<^verbatim>\<open>parse_imf_asset_map_from_xml_dom\<close>,
  \<^verbatim>\<open>imf_asset_map_alloc\<close>, \<^verbatim>\<open>imf_asset_map_free\<close>,
  \<^verbatim>\<open>parse_assetmap\<close>, \<^verbatim>\<open>imf_read_header\<close>,
  \<^verbatim>\<open>ff_imf_read_packet\<close> and \<^verbatim>\<open>imf_close\<close>.
  Pointers are explicit: the XML document is an immutable tree addressed by paths, the C heap
  is a store of cells addressed by numbers, and \<open>None\<close> is the null pointer.
  Undefined behaviour of the C program (a write past the end of a block, a use of a freed
  block) is a value of the model, \<open>Faults\<close>, and a loop that never ends has the value
  \<open>None\<close>.
\<close>

subsection \<open>Return codes\<close>

text \<open>
  The error codes of libavutil/error.h: \<^verbatim>\<open>AVERROR_x = -MKTAG(a, b, c, d)\<close>,
  the tag being the four characters read as a little-endian 32-bit number.
\<close>

definition MKTAG :: "char \<Rightarrow> char \<Rightarrow> char \<Rightarrow> char \<Rightarrow> int" where
  "MKTAG a b c d = of_char a + 256 * of_char b + 65536 * of_char c + 16777216 * of_char d"

definition AVERROR_INVALIDDATA :: int where
  "AVERROR_INVALIDDATA = - MKTAG CHR ''I'' CHR ''N'' CHR ''D'' CHR ''A''"

definition AVERROR_EOF :: int where
  "AVERROR_EOF = - MKTAG CHR ''E'' CHR ''O'' CHR ''F'' CHR '' ''"

definition AVERROR_BUG :: int where
  "AVERROR_BUG = - MKTAG CHR ''B'' CHR ''U'' CHR ''G'' CHR ''!''"

subsection \<open>The XML document tree (libxml2)\<close>

text \<open>
  A node of the tree libxml2 builds: an element with its tag and children, a text node, or a
  node of another kind (comment, processing instruction). A document is the list of the
  children of its document node. A node pointer \<^verbatim>\<open>xmlNodePtr\<close> is the path
  of child indices from the document node, and the null pointer is \<open>None\<close>; the parent
  of a node is its path without the last index.
\<close>

datatype xml_node = Element string "xml_node list" | Text string | Comment string

type_synonym xml_doc = "xml_node list"
type_synonym xml_path = "nat list"
type_synonym xmlNodePtr = "xml_path option"
type_synonym xmlDocPtr = "xml_doc option"

fun is_element :: "xml_node \<Rightarrow> bool" where
  "is_element (Element n ks) = True"
| "is_element (Text s) = False"
| "is_element (Comment s) = False"

fun kids_at :: "xml_node list \<Rightarrow> xml_path \<Rightarrow> xml_node list option" where
  "kids_at ns [] = Some ns"
| "kids_at ns (i # p) =
     (if i < length ns
      then (case ns ! i of Element n ks \<Rightarrow> kids_at ks p | Text s \<Rightarrow> None | Comment s \<Rightarrow> None)
      else None)"

definition node_at :: "xml_doc \<Rightarrow> xml_path \<Rightarrow> xml_node option" where
  "node_at doc p =
     (if p = [] then None
      else (case kids_at doc (butlast p) of
              None \<Rightarrow> None
            | Some ks \<Rightarrow> (if last p < length ks then Some (ks ! last p) else None)))"

text \<open>\<^verbatim>\<open>node->name\<close> of an element node.\<close>

definition node_name :: "xml_doc \<Rightarrow> xml_path \<Rightarrow> string" where
  "node_name doc p = (case node_at doc p of Some (Element n ks) \<Rightarrow> n | _ \<Rightarrow> [])"

text \<open>The index of the first element node of a list of siblings, counted from \<open>k\<close>.\<close>

fun find_element :: "xml_node list \<Rightarrow> nat \<Rightarrow> nat option" where
  "find_element [] k = None"
| "find_element (x # xs) k = (if is_element x then Some k else find_element xs (Suc k))"

definition xmlDocGetRootElement :: "xmlDocPtr \<Rightarrow> xmlNodePtr" where
  "xmlDocGetRootElement d =
     (case d of None \<Rightarrow> None
      | Some doc \<Rightarrow> map_option (\<lambda>j. [j]) (find_element doc 0))"

definition xmlFirstElementChild :: "xml_doc \<Rightarrow> xmlNodePtr \<Rightarrow> xmlNodePtr" where
  "xmlFirstElementChild doc node =
     (case node of None \<Rightarrow> None
      | Some p \<Rightarrow> (case node_at doc p of
                    Some (Element n ks) \<Rightarrow> map_option (\<lambda>j. p @ [j]) (find_element ks 0)
                  | _ \<Rightarrow> None))"

definition xmlNextElementSibling :: "xml_doc \<Rightarrow> xmlNodePtr \<Rightarrow> xmlNodePtr" where
  "xmlNextElementSibling doc node =
     (case node of None \<Rightarrow> None
      | Some p \<Rightarrow>
          (if p = [] then None
           else (case kids_at doc (butlast p) of
                   None \<Rightarrow> None
                 | Some ks \<Rightarrow> map_option (\<lambda>j. butlast p @ [j])
                               (find_element (drop (Suc (last p)) ks) (Suc (last p))))))"

text \<open>\<^verbatim>\<open>node->parent\<close>; the document node has no parent.\<close>

definition xml_parent :: "xml_path \<Rightarrow> xmlNodePtr" where
  "xml_parent p = (if p = [] then None else Some (butlast p))"

text \<open>
  The text \<^verbatim>\<open>xmlNodeGetContent\<close> returns for a node: the text nodes below it,
  concatenated in document order.
\<close>

fun text_of :: "xml_node \<Rightarrow> string" where
  "text_of (Text s) = s"
| "text_of (Comment s) = []"
| "text_of (Element n ks) = concat (map text_of ks)"

subsection \<open>Case-insensitive comparison (libavutil/avstring)\<close>

text \<open>
  \<^verbatim>\<open>av_tolower\<close>: \<^verbatim>\<open>if (c >= 'A' && c <= 'Z') c ^= 0x20\<close>; the sixth
  bit of the character is flipped.
\<close>

definition av_tolower :: "char \<Rightarrow> char" where
  "av_tolower c =
     (if (65::nat) \<le> of_char c \<and> of_char c \<le> (90::nat)
      then (case c of Char b0 b1 b2 b3 b4 b5 b6 b7 \<Rightarrow> Char b0 b1 b2 b3 b4 (\<not> b5) b6 b7)
      else c)"

text \<open>
  \<^verbatim>\<open>av_strcasecmp\<close>: the difference of the first two characters that differ
  after lowering, the end of a string counting as 0.
\<close>

fun av_strcasecmp :: "string \<Rightarrow> string \<Rightarrow> int" where
  "av_strcasecmp [] [] = 0"
| "av_strcasecmp [] (b # bs) = - of_char (av_tolower b)"
| "av_strcasecmp (a # as) [] = of_char (av_tolower a)"
| "av_strcasecmp (a # as) (b # bs) =
     (if av_tolower a = av_tolower b then av_strcasecmp as bs
      else of_char (av_tolower a) - of_char (av_tolower b))"

subsection \<open>Helpers of imf_internal.h\<close>

text \<open>
  Modelled from the spec: \<^verbatim>\<open>xml_get_child_element_by_name\<close> is declared in
  imf_internal.h and defined outside this file. The spec: find the direct child with the
  given name, tag comparisons being case-insensitive throughout; absent if there is none.
\<close>

fun find_named :: "xml_node list \<Rightarrow> string \<Rightarrow> nat \<Rightarrow> nat option" where
  "find_named [] name k = None"
| "find_named (Element n ks # xs) name k =
     (if av_strcasecmp n name = 0 then Some k else find_named xs name (Suc k))"
| "find_named (Text s # xs) name k = find_named xs name (Suc k)"
| "find_named (Comment s # xs) name k = find_named xs name (Suc k)"

definition xml_get_child_element_by_name :: "xml_doc \<Rightarrow> xmlNodePtr \<Rightarrow> string \<Rightarrow> xmlNodePtr" where
  "xml_get_child_element_by_name doc parent name =
     (case parent of None \<Rightarrow> None
      | Some p \<Rightarrow> (case node_at doc p of
                    Some (Element n ks) \<Rightarrow> map_option (\<lambda>j. p @ [j]) (find_named ks name 0)
                  | _ \<Rightarrow> None))"

type_synonym uuid = "8 word list"

definition hex_digit :: "char \<Rightarrow> nat option" where
  "hex_digit c =
     (let n = (of_char c :: nat) in
      if 48 \<le> n \<and> n \<le> 57 then Some (n - 48)
      else if 97 \<le> n \<and> n \<le> 102 then Some (n - 87)
      else if 65 \<le> n \<and> n \<le> 70 then Some (n - 55)
      else None)"

fun hex_bytes :: "string \<Rightarrow> uuid option" where
  "hex_bytes [] = Some []"
| "hex_bytes [c] = None"
| "hex_bytes (c # d # cs) =
     (case hex_digit c of None \<Rightarrow> None
      | Some hi \<Rightarrow> (case hex_digit d of None \<Rightarrow> None
                    | Some lo \<Rightarrow> (case hex_bytes cs of None \<Rightarrow> None
                                  | Some bs \<Rightarrow> Some (of_nat (16 * hi + lo) # bs))))"

text \<open>
  Modelled from the spec: the UUID decoder behind \<^verbatim>\<open>xml_read_UUID\<close> (defined
  outside this file). The spec: the textual form is 8-4-4-4-12 hyphenated hexadecimal,
  decoded to 16 raw bytes, case-insensitive on decode.
\<close>

definition decode_uuid :: "string \<Rightarrow> uuid option" where
  "decode_uuid s =
     (if length s = 36 \<and> s ! 8 = CHR ''-'' \<and> s ! 13 = CHR ''-''
         \<and> s ! 18 = CHR ''-'' \<and> s ! 23 = CHR ''-''
      then (case hex_bytes (filter (\<lambda>c. c \<noteq> CHR ''-'') s) of
              None \<Rightarrow> None
            | Some bs \<Rightarrow> (if length bs = 16 then Some bs else None))
      else None)"

text \<open>
  Modelled from the spec: \<^verbatim>\<open>xml_read_UUID(element, uuid)\<close> is declared in
  imf_internal.h and defined outside this file. The spec: read the text of the element and
  decode it as a UUID; fail if the element is missing, empty, or not decodable. \<open>None\<close>
  is a nonzero return, \<open>Some u\<close> is the return 0 with \<open>u\<close> written to the 16 bytes.
\<close>

definition xml_read_UUID :: "xml_doc \<Rightarrow> xmlNodePtr \<Rightarrow> uuid option" where
  "xml_read_UUID doc element =
     (case element of None \<Rightarrow> None
      | Some p \<Rightarrow> (case node_at doc p of None \<Rightarrow> None
                  | Some n \<Rightarrow> decode_uuid (text_of n)))"

subsection \<open>Paths (libavutil/avstring)\<close>

text \<open>
  \<^verbatim>\<open>av_append_path_component(path, component)\<close> of libavutil, on two strings:
  an empty path gives the component and an empty component gives the path; otherwise the
  component is appended to the path with one \<^verbatim>\<open>'/'\<close> at the seam, a separator
  being added when neither side has one there and one being dropped when both have. The
  function makes no test of whether the component is absolute. (Its length test against
  \<^verbatim>\<open>SIZE_MAX\<close> cannot fail for strings that fit in memory and is left out.)
\<close>

definition append_path_component :: "string \<Rightarrow> string \<Rightarrow> string" where
  "append_path_component path component =
     (if path = [] then component
      else if component = [] then path
      else if last path \<noteq> CHR ''/'' \<and> hd component \<noteq> CHR ''/'' then path @ ''/'' @ component
      else if last path = CHR ''/'' \<and> hd component = CHR ''/'' then butlast path @ component
      else path @ component)"

text \<open>
  The string \<^verbatim>\<open>av_dirname\<close> of libavutil answers with: the path cut at its last
  \<^verbatim>\<open>'/'\<close>, or \<^verbatim>\<open>"."\<close> when the path has none.
\<close>

definition dirname_text :: "string \<Rightarrow> string" where
  "dirname_text path =
     (if CHR ''/'' \<in> set path
      then rev (tl (dropWhile (\<lambda>c. c \<noteq> CHR ''/'') (rev path)))
      else ''.'')"

subsection \<open>Absolute paths, as the specification describes them\<close>





subsection \<open>The C heap\<close>

text \<open>
  A heap block holds a C string, an \<^verbatim>\<open>IMFAssetLocator\<close> (its 16-byte uuid and
  its \<^verbatim>\<open>absolute_uri\<close> pointer), an array of pointer slots, or an
  \<^verbatim>\<open>IMFAssetMap\<close> (its \<^verbatim>\<open>assets\<close> pointer and its
  \<^verbatim>\<open>asset_count\<close>). The allocator hands out the addresses
  \<open>0, 1, 2, \<dots>\<close> and never reuses one, so that a pointer to a freed block stays
  recognisable. Allocation always succeeds in this model: running out of memory is not part
  of it.
\<close>

type_synonym addr = nat

datatype obj =
    Bytes string
  | IMFAssetLocator uuid "addr option"
  | PtrArray "addr option list"
  | IMFAssetMap "addr option" nat

record heap =
  cells :: "addr \<Rightarrow> obj option"
  brk :: addr

datatype fault = NullDeref | OutOfBounds | BadPointer

text \<open>
  A pointer to a string is a pointer to a heap block or a pointer to a string literal of the
  program, which the allocator never handed out.
\<close>

datatype str_ptr = HeapStr addr | StaticStr string

datatype 'a result = Returns 'a | Faults fault

fun rbind :: "'a result \<Rightarrow> ('a \<Rightarrow> 'b result) \<Rightarrow> 'b result" where
  "rbind (Returns x) k = k x"
| "rbind (Faults f) k = Faults f"

definition empty_heap :: heap where
  "empty_heap = \<lparr>cells = (\<lambda>a. None), brk = 0\<rparr>"

text \<open>The addresses of the live blocks, in the order of their allocation.\<close>

definition live :: "heap \<Rightarrow> addr list" where
  "live h = filter (\<lambda>a. cells h a \<noteq> None) [0..<brk h]"

definition av_malloc :: "heap \<Rightarrow> obj \<Rightarrow> addr \<times> heap" where
  "av_malloc h v = (brk h, h\<lparr>cells := (cells h)(brk h \<mapsto> v), brk := Suc (brk h)\<rparr>)"

text \<open>\<^verbatim>\<open>av_free\<close>: a null pointer is accepted; a pointer to no live block is a fault.\<close>

definition av_free :: "heap \<Rightarrow> addr option \<Rightarrow> heap result" where
  "av_free h ptr =
     (case ptr of None \<Rightarrow> Returns h
      | Some a \<Rightarrow> (case cells h a of
                    None \<Rightarrow> Faults BadPointer
                  | Some v \<Rightarrow> Returns (h\<lparr>cells := (cells h)(a := None)\<rparr>)))"

text \<open>
  Modelled from the spec: imf.h, which declares \<^verbatim>\<open>IMFAssetLocator\<close>, is outside
  this file. The spec: an asset locator is a 16-byte binary identifier and a string; the
  string is a pointer (\<^verbatim>\<open>strdup\<close> fills it), 8 bytes on a 64-bit target.
\<close>

definition sizeof_ptr :: nat where
  "sizeof_ptr = 8"

definition sizeof_IMFAssetLocator :: nat where
  "sizeof_IMFAssetLocator = 16 + sizeof_ptr"

text \<open>
  \<^verbatim>\<open>av_realloc(ptr, sz)\<close> for a block of pointers: a block of \<open>sz\<close> bytes has
  room for \<open>sz div sizeof_ptr\<close> pointers. The new block keeps the slots of the old one
  that fit; the old block is released.
\<close>

definition av_realloc :: "heap \<Rightarrow> addr option \<Rightarrow> nat \<Rightarrow> (addr \<times> heap) result" where
  "av_realloc h ptr sz =
     (case ptr of
        None \<Rightarrow> Returns (av_malloc h (PtrArray (replicate (sz div sizeof_ptr) None)))
      | Some a \<Rightarrow>
          (case cells h a of
             Some (PtrArray slots) \<Rightarrow>
               Returns (av_malloc (h\<lparr>cells := (cells h)(a := None)\<rparr>)
                          (PtrArray (take (sz div sizeof_ptr) slots
                                     @ replicate (sz div sizeof_ptr - length slots) None)))
           | _ \<Rightarrow> Faults BadPointer))"

text \<open>\<^verbatim>\<open>array[i] = v\<close> on a block of pointers.\<close>

definition store_ptr :: "heap \<Rightarrow> addr option \<Rightarrow> nat \<Rightarrow> addr option \<Rightarrow> heap result" where
  "store_ptr h arr i v =
     (case arr of None \<Rightarrow> Faults NullDeref
      | Some a \<Rightarrow>
          (case cells h a of
             Some (PtrArray slots) \<Rightarrow>
               (if i < length slots
                then Returns (h\<lparr>cells := (cells h)(a \<mapsto> PtrArray (slots[i := v]))\<rparr>)
                else Faults OutOfBounds)
           | _ \<Rightarrow> Faults BadPointer))"

text \<open>\<^verbatim>\<open>array[i]\<close> on a block of pointers.\<close>

definition load_ptr :: "heap \<Rightarrow> addr option \<Rightarrow> nat \<Rightarrow> addr option result" where
  "load_ptr h arr i =
     (case arr of None \<Rightarrow> Faults NullDeref
      | Some a \<Rightarrow>
          (case cells h a of
             Some (PtrArray slots) \<Rightarrow>
               (if i < length slots then Returns (slots ! i) else Faults OutOfBounds)
           | _ \<Rightarrow> Faults BadPointer))"

text \<open>\<^verbatim>\<open>strdup\<close>: a fresh copy of the string a pointer refers to.\<close>

definition strdup :: "heap \<Rightarrow> addr option \<Rightarrow> (addr \<times> heap) result" where
  "strdup h ptr =
     (case ptr of None \<Rightarrow> Faults NullDeref
      | Some a \<Rightarrow> (case cells h a of
                    Some (Bytes s) \<Rightarrow> Returns (av_malloc h (Bytes s))
                  | _ \<Rightarrow> Faults BadPointer))"

text \<open>
  \<^verbatim>\<open>xmlNodeGetContent\<close> returns a freshly allocated string the caller owns, or
  null for a null node.
\<close>

definition xmlNodeGetContent :: "heap \<Rightarrow> xml_doc \<Rightarrow> xmlNodePtr \<Rightarrow> addr option \<times> heap" where
  "xmlNodeGetContent h doc node =
     (case node of None \<Rightarrow> (None, h)
      | Some p \<Rightarrow> (case node_at doc p of
                    None \<Rightarrow> (None, h)
                  | Some n \<Rightarrow> (let (a, h') = av_malloc h (Bytes (text_of n)) in (Some a, h'))))"

text \<open>
  \<^verbatim>\<open>av_append_path_component(path, component)\<close> with its pointers: the result
  is a freshly allocated string, a copy of the path when the component is null. The path
  is passed as the string it points to.
\<close>

definition av_append_path_component :: "heap \<Rightarrow> string \<Rightarrow> addr option \<Rightarrow> (addr \<times> heap) result" where
  "av_append_path_component h path component =
     (case component of
        None \<Rightarrow> Returns (av_malloc h (Bytes path))
      | Some a \<Rightarrow> (case cells h a of
                    Some (Bytes P) \<Rightarrow> Returns (av_malloc h (Bytes (append_path_component path P)))
                  | _ \<Rightarrow> Faults BadPointer))"

text \<open>
  \<^verbatim>\<open>av_dirname(path)\<close> with its pointers: the string is cut in place at its last
  \<^verbatim>\<open>'/'\<close> and the same pointer comes back; when it has no
  \<^verbatim>\<open>'/'\<close> the block is left alone and the answer is a pointer to the literal
  \<^verbatim>\<open>"."\<close>.
\<close>

definition av_dirname :: "heap \<Rightarrow> addr \<Rightarrow> (str_ptr \<times> heap) result" where
  "av_dirname h a =
     (case cells h a of
        Some (Bytes path) \<Rightarrow>
          (if CHR ''/'' \<in> set path
           then Returns (HeapStr a, h\<lparr>cells := (cells h)(a \<mapsto> Bytes (dirname_text path))\<rparr>)
           else Returns (StaticStr (dirname_text path), h))
      | _ \<Rightarrow> Faults BadPointer)"

text \<open>The string a string pointer refers to.\<close>

definition load_str :: "heap \<Rightarrow> str_ptr option \<Rightarrow> string result" where
  "load_str h ptr =
     (case ptr of
        None \<Rightarrow> Faults NullDeref
      | Some (StaticStr t) \<Rightarrow> Returns t
      | Some (HeapStr a) \<Rightarrow> (case cells h a of Some (Bytes t) \<Rightarrow> Returns t | _ \<Rightarrow> Faults BadPointer))"

text \<open>
  \<^verbatim>\<open>av_free\<close> of a string pointer: a pointer to a literal is no pointer of the
  allocator, and freeing it is a fault.
\<close>

definition av_free_str :: "heap \<Rightarrow> str_ptr option \<Rightarrow> heap result" where
  "av_free_str h ptr =
     (case ptr of
        None \<Rightarrow> Returns h
      | Some (StaticStr t) \<Rightarrow> Faults BadPointer
      | Some (HeapStr a) \<Rightarrow> av_free h (Some a))"

text \<open>The two field writes of an asset locator: its uuid and its \<^verbatim>\<open>absolute_uri\<close>.\<close>

definition store_uuid :: "heap \<Rightarrow> addr \<Rightarrow> uuid \<Rightarrow> heap result" where
  "store_uuid h a u =
     (case cells h a of
        Some (IMFAssetLocator u0 s) \<Rightarrow> Returns (h\<lparr>cells := (cells h)(a \<mapsto> IMFAssetLocator u s)\<rparr>)
      | _ \<Rightarrow> Faults BadPointer)"

definition store_uri :: "heap \<Rightarrow> addr \<Rightarrow> addr option \<Rightarrow> heap result" where
  "store_uri h a s =
     (case cells h a of
        Some (IMFAssetLocator u s0) \<Rightarrow> Returns (h\<lparr>cells := (cells h)(a \<mapsto> IMFAssetLocator u s)\<rparr>)
      | _ \<Rightarrow> Faults BadPointer)"

subsection \<open>parse_imf_asset_map_from_xml_dom\<close>

text \<open>
  Lines 126-127: the array of the registry is reallocated to
  \<^verbatim>\<open>asset_count + 1 * sizeof(IMFAssetLocator)\<close> bytes, the new asset is stored
  at index \<^verbatim>\<open>asset_count\<close>, and the count is incremented.
  \<^verbatim>\<open>*asset_map\<close> is the pointer \<open>am\<close>.
\<close>

definition append_asset :: "heap \<Rightarrow> addr option \<Rightarrow> addr \<Rightarrow> heap result" where
  "append_asset h am asset =
     (case am of None \<Rightarrow> Faults NullDeref
      | Some m \<Rightarrow>
          (case cells h m of
             Some (IMFAssetMap arr n) \<Rightarrow>
               rbind (av_realloc h arr (n + 1 * sizeof_IMFAssetLocator)) (\<lambda>(arr', h1).
               rbind (store_ptr (h1\<lparr>cells := (cells h1)(m \<mapsto> IMFAssetMap (Some arr') n)\<rparr>)
                        (Some arr') n (Some asset)) (\<lambda>h2.
               Returns (h2\<lparr>cells := (cells h2)(m \<mapsto> IMFAssetMap (Some arr') (Suc n))\<rparr>)))
           | _ \<Rightarrow> Faults BadPointer))"

text \<open>
  One pass through the body of the \<^verbatim>\<open>while (node)\<close> loop, lines 93-127, at a
  non-null \<open>node\<close>: it either leaves the function (\<open>Stop\<close>, with the value returned or
  a fault) or reaches the loop test again (\<open>Next\<close>, with the new heap and the new
  \<open>node\<close>). The \<^verbatim>\<open>continue\<close> of line 94 reaches the test with \<open>node\<close> as it
  was.
\<close>

datatype loop_step = Stop "(int \<times> heap) result" | Next heap xmlNodePtr

fun on_result :: "'a result \<Rightarrow> ('a \<Rightarrow> loop_step) \<Rightarrow> loop_step" where
  "on_result (Returns x) k = k x"
| "on_result (Faults f) k = Stop (Faults f)"

text \<open>\<^verbatim>\<open>node->parent->parent\<close>.\<close>

definition grandparent :: "xml_path \<Rightarrow> xmlNodePtr result" where
  "grandparent p =
     (case xml_parent p of None \<Rightarrow> Faults NullDeref
      | Some q \<Rightarrow> (case xml_parent q of None \<Rightarrow> Faults NullDeref | Some r \<Rightarrow> Returns (Some r)))"

definition asset_body :: "xml_doc \<Rightarrow> string \<Rightarrow> addr option \<Rightarrow> heap \<Rightarrow> xml_path \<Rightarrow> loop_step" where
  "asset_body doc base_url am h p =
     (if av_strcasecmp (node_name doc p) ''Asset'' \<noteq> 0 then Next h (Some p)
      else
        (let (asset, h1) = av_malloc h (IMFAssetLocator (replicate 16 0) None) in
         (case xml_read_UUID doc (xml_get_child_element_by_name doc (Some p) ''Id'') of
            None \<Rightarrow> on_result (av_free h1 (Some asset)) (\<lambda>h2. Stop (Returns (1, h2)))
          | Some u \<Rightarrow>
              on_result (store_uuid h1 asset u) (\<lambda>h2.
              (case xml_get_child_element_by_name doc (Some p) ''ChunkList'' of
                 None \<Rightarrow> Stop (Returns (AVERROR_INVALIDDATA, h2))
               | Some cl \<Rightarrow>
                   (case xml_get_child_element_by_name doc (Some cl) ''Chunk'' of
                      None \<Rightarrow> Stop (Returns (AVERROR_INVALIDDATA, h2))
                    | Some ch \<Rightarrow>
                        (let (content, h3) =
                               xmlNodeGetContent h2 doc
                                 (xml_get_child_element_by_name doc (Some ch) ''Path'') in
                         on_result (av_append_path_component h3 base_url content) (\<lambda>(uri, h4).
                         on_result (strdup h4 (Some uri)) (\<lambda>(dup, h5).
                         on_result (store_uri h5 asset (Some dup)) (\<lambda>h6.
                         on_result (av_free h6 (Some uri)) (\<lambda>h7.
                         on_result (grandparent ch) (\<lambda>gp.
                         on_result (append_asset h7 am asset) (\<lambda>h8.
                         Next h8 (xmlNextElementSibling doc gp))))))))))))))"

text \<open>
  The loop \<^verbatim>\<open>while (node) { ... }\<close> followed by \<^verbatim>\<open>return 0\<close>. The
  value \<open>None\<close> of the function is the run that never leaves the loop.
\<close>

partial_function (option) asset_loop ::
  "xml_doc \<Rightarrow> string \<Rightarrow> addr option \<Rightarrow> heap \<Rightarrow> xmlNodePtr \<Rightarrow> (int \<times> heap) result option" where
  "asset_loop doc base_url am h node =
     (case node of
        None \<Rightarrow> Some (Returns (0, h))
      | Some p \<Rightarrow>
          (case asset_body doc base_url am h p of
             Stop r \<Rightarrow> Some r
           | Next h' node' \<Rightarrow> asset_loop doc base_url am h' node'))"

declare asset_loop.simps [code]

text \<open>\<^verbatim>\<open>node->type == XML_ELEMENT_NODE\<close>.\<close>

definition is_element_node :: "xml_doc \<Rightarrow> xml_path \<Rightarrow> bool" where
  "is_element_node doc p = (case node_at doc p of Some n \<Rightarrow> is_element n | None \<Rightarrow> False)"

text \<open>
  The function itself: \<open>doc\<close> is the document pointer, \<open>am\<close> the pointer
  \<^verbatim>\<open>*asset_map\<close>, \<open>base_url\<close> the string the base pointer refers to. The result
  is the value returned and the heap at the return.
\<close>

definition parse_imf_asset_map_from_xml_dom ::
  "heap \<Rightarrow> xmlDocPtr \<Rightarrow> addr option \<Rightarrow> string \<Rightarrow> (int \<times> heap) result option" where
  "parse_imf_asset_map_from_xml_dom h doc am base_url =
     (case xmlDocGetRootElement doc of
        None \<Rightarrow> Some (Returns (AVERROR_INVALIDDATA, h))
      | Some asset_map_element \<Rightarrow>
          (let d = (case doc of None \<Rightarrow> [] | Some ns \<Rightarrow> ns) in
           if \<not> is_element_node d asset_map_element
           then Some (Returns (AVERROR_INVALIDDATA, h))
           else if av_strcasecmp (node_name d asset_map_element) ''AssetMap'' \<noteq> 0
           then Some (Returns (AVERROR_INVALIDDATA, h))
           else (case xml_get_child_element_by_name d (Some asset_map_element) ''AssetList'' of
                   None \<Rightarrow> Some (Returns (AVERROR_INVALIDDATA, h))
                 | Some node \<Rightarrow>
                     asset_loop d base_url am h (xmlFirstElementChild d (Some node)))))"

subsection \<open>The registry: imf_asset_map_alloc and imf_asset_map_free\<close>

definition imf_asset_map_alloc :: "heap \<Rightarrow> addr option \<times> heap" where
  "imf_asset_map_alloc h = (let (a, h') = av_malloc h (IMFAssetMap None 0) in (Some a, h'))"

text \<open>
  The loop \<^verbatim>\<open>for (i = 0; i < asset_count; ++i) av_free(assets[i])\<close>, from index
  \<open>i\<close> with \<open>k\<close> passes to go.
\<close>

fun free_assets :: "heap \<Rightarrow> addr option \<Rightarrow> nat \<Rightarrow> nat \<Rightarrow> heap result" where
  "free_assets h arr i 0 = Returns h"
| "free_assets h arr i (Suc k) =
     rbind (load_ptr h arr i) (\<lambda>p.
     rbind (av_free h p) (\<lambda>h'. free_assets h' arr (Suc i) k))"

text \<open>
  \<^verbatim>\<open>imf_asset_map_free\<close>. Reading the fields of a block that is not a live
  registry is a fault. \<^verbatim>\<open>av_freep(&asset_map)\<close> clears the parameter, a local
  variable: the pointer the caller holds is as it was.
\<close>

definition imf_asset_map_free :: "heap \<Rightarrow> addr option \<Rightarrow> heap result" where
  "imf_asset_map_free h asset_map =
     (case asset_map of None \<Rightarrow> Returns h
      | Some m \<Rightarrow>
          (case cells h m of
             Some (IMFAssetMap arr n) \<Rightarrow>
               rbind (free_assets h arr 0 n) (\<lambda>h1.
               rbind (av_free h1 arr) (\<lambda>h2.
               av_free (h2\<lparr>cells := (cells h2)(m \<mapsto> IMFAssetMap None n)\<rparr>) (Some m)))
           | _ \<Rightarrow> Faults BadPointer))"

subsection \<open>The demuxer: parse_assetmap, imf_read_header, ff_imf_read_packet, imf_close\<close>

text \<open>
  The fields of \<^verbatim>\<open>IMFContext\<close> the functions use; the private data of a new
  format context is zeroed, so every pointer starts as null.
\<close>

record IMFContext =
  base_url :: "str_ptr option"
  asset_map_path :: "addr option"
  asset_map :: "addr option"

definition new_context :: IMFContext where
  "new_context = \<lparr>base_url = None, asset_map_path = None, asset_map = None\<rparr>"

text \<open>
  What the collaborators outside this file answer during one open: the value
  \<^verbatim>\<open>parse_imf_cpl\<close> returns, the value \<^verbatim>\<open>avio_open2\<close> returns, the
  value \<^verbatim>\<open>avio_read_to_bprint\<close> returns, whether the stream is at its end
  afterwards, the number of bytes read, and the document \<^verbatim>\<open>xmlReadMemory\<close>
  builds from them (null when the bytes are not well-formed).
\<close>

record io_env =
  cpl_ret :: int
  open_ret :: int
  read_ret :: int
  at_eof :: bool
  buf_len :: nat
  xml_doc :: xmlDocPtr

text \<open>
  \<^verbatim>\<open>parse_assetmap\<close>; \<open>has_in\<close> says whether the caller passed an open
  stream. Line 168: \<^verbatim>\<open>c->base_url = av_dirname(strdup(url))\<close>, so the base
  directory is the fresh copy of \<open>url\<close>, cut in place, or the literal
  \<^verbatim>\<open>"."\<close> (and then nothing points to the copy any more). The three tests of
  line 192 are made in their order, and each leads to the same branch.
\<close>

definition parse_assetmap ::
  "heap \<Rightarrow> IMFContext \<Rightarrow> io_env \<Rightarrow> string \<Rightarrow> bool \<Rightarrow> (int \<times> heap \<times> IMFContext) result option" where
  "parse_assetmap h c env url has_in =
     (let (b, h0) = av_malloc h (Bytes url) in
      (case av_dirname h0 b of
         Faults f \<Rightarrow> Some (Faults f)
       | Returns (dir, h1) \<Rightarrow>
           (let c1 = c\<lparr>base_url := Some dir\<rparr>;
                (m, h2) = imf_asset_map_alloc h1;
                c2 = c1\<lparr>asset_map := m\<rparr>;
                unreadable =
                  Some (Returns (if read_ret env = 0 then AVERROR_INVALIDDATA else read_ret env,
                                 h2, c2))
            in if m = None then Some (Returns (AVERROR_BUG, h2, c2))
               else if \<not> has_in \<and> open_ret env < 0 then Some (Returns (open_ret env, h2, c2))
               else if read_ret env < 0 then unreadable
               else if \<not> at_eof env then unreadable
               else if buf_len env = 0 then unreadable
               else (case load_str h2 (base_url c2) of
                       Faults f \<Rightarrow> Some (Faults f)
                     | Returns base \<Rightarrow>
                         map_option (\<lambda>r. rbind r (\<lambda>(ret, h3). Returns (ret, h3, c2)))
                           (parse_imf_asset_map_from_xml_dom h2 (xml_doc env) (asset_map c2)
                              base)))))"

definition imf_close :: "heap \<Rightarrow> IMFContext \<Rightarrow> (int \<times> heap \<times> IMFContext) result" where
  "imf_close h c =
     rbind (av_free_str h (base_url c)) (\<lambda>h1.
     rbind (imf_asset_map_free h1 (asset_map c)) (\<lambda>h2.
     Returns (0, h2, c\<lparr>base_url := None\<rparr>)))"

text \<open>
  \<^verbatim>\<open>imf_read_header\<close>; \<open>url\<close> is the string \<^verbatim>\<open>s->url\<close>
  points to (it belongs to the caller, and the cut \<^verbatim>\<open>av_dirname\<close> makes in
  it is not followed). The label
  \<^verbatim>\<open>fail\<close> closes the package and returns \<open>ret\<close>.
\<close>

definition read_header_fail :: "heap \<Rightarrow> IMFContext \<Rightarrow> int \<Rightarrow> (int \<times> heap \<times> IMFContext) result" where
  "read_header_fail h c ret = rbind (imf_close h c) (\<lambda>(r, h', c'). Returns (ret, h', c'))"

definition imf_read_header ::
  "heap \<Rightarrow> IMFContext \<Rightarrow> io_env \<Rightarrow> string \<Rightarrow> (int \<times> heap \<times> IMFContext) result option" where
  "imf_read_header h c env url =
     (if cpl_ret env < 0 then Some (read_header_fail h c (cpl_ret env))
      else
        (let (h1, c1) =
               (case asset_map_path c of
                  None \<Rightarrow> (let (a, h') = av_malloc h (Bytes (append_path_component (dirname_text url) ''ASSETMAP.xml''))
                            in (h', c\<lparr>asset_map_path := Some a\<rparr>))
                | Some a \<Rightarrow> (h, c))
         in (case asset_map_path c1 of
               None \<Rightarrow> Some (Faults NullDeref)
             | Some a \<Rightarrow>
                 (case cells h1 a of
                    Some (Bytes path) \<Rightarrow>
                      (case parse_assetmap h1 c1 env path False of
                         None \<Rightarrow> None
                       | Some (Faults f) \<Rightarrow> Some (Faults f)
                       | Some (Returns (ret, h2, c2)) \<Rightarrow>
                           (if ret < 0 then Some (read_header_fail h2 c2 ret)
                            else Some (Returns (0, h2, c2))))
                  | _ \<Rightarrow> Some (Faults BadPointer)))))"

text \<open>
  \<^verbatim>\<open>ff_imf_read_packet\<close>: the value returned, with the context and the packet
  after the call. A packet is the list of its bytes.
\<close>

definition ff_imf_read_packet ::
  "heap \<times> IMFContext \<Rightarrow> 8 word list \<Rightarrow> int \<times> (heap \<times> IMFContext) \<times> 8 word list" where
  "ff_imf_read_packet s pkt = (AVERROR_EOF, s, pkt)"

subsection \<open>Reading a registry off the heap\<close>

text \<open>
  The entry a locator pointer refers to (its uuid and the string its
  \<^verbatim>\<open>absolute_uri\<close> points to), and the entries of a registry: the first
  \<^verbatim>\<open>asset_count\<close> slots of its array, in order. Both are \<open>None\<close> when a
  pointer on the way refers to no live block of the expected kind.
\<close>

definition locator_view :: "heap \<Rightarrow> addr option \<Rightarrow> (uuid \<times> string) option" where
  "locator_view h ptr =
     (case ptr of None \<Rightarrow> None
      | Some a \<Rightarrow>
          (case cells h a of
             Some (IMFAssetLocator u (Some sa)) \<Rightarrow>
               (case cells h sa of Some (Bytes str) \<Rightarrow> Some (u, str) | _ \<Rightarrow> None)
           | _ \<Rightarrow> None))"

definition registry_view :: "heap \<Rightarrow> addr option \<Rightarrow> (uuid \<times> string) list option" where
  "registry_view h am =
     (case am of None \<Rightarrow> None
      | Some m \<Rightarrow>
          (case cells h m of
             Some (IMFAssetMap arr n) \<Rightarrow>
               (case arr of
                  None \<Rightarrow> (if n = 0 then Some [] else None)
                | Some a \<Rightarrow>
                    (case cells h a of
                       Some (PtrArray slots) \<Rightarrow>
                         (if n \<le> length slots
                          then those (map (locator_view h) (take n slots))
                          else None)
                     | _ \<Rightarrow> None))
           | _ \<Rightarrow> None))"

text \<open>\<^verbatim>\<open>asset_count\<close> of a registry.\<close>

definition registry_count :: "heap \<Rightarrow> addr option \<Rightarrow> nat option" where
  "registry_count h am =
     (case am of None \<Rightarrow> None
      | Some m \<Rightarrow> (case cells h m of Some (IMFAssetMap arr n) \<Rightarrow> Some n | _ \<Rightarrow> None))"




subsection \<open>What the parser reads off a document\<close>






subsection \<open>Example documents\<close>

text \<open>
  The input shape of the Asset Map: an \<^verbatim>\<open>Asset\<close> element with an
  \<^verbatim>\<open>Id\<close> and one \<^verbatim>\<open>Chunk\<close> with a \<^verbatim>\<open>Path\<close>, and the
  document \<^verbatim>\<open>AssetMap/AssetList\<close> around a list of children.
\<close>

definition asset_element :: "string \<Rightarrow> string \<Rightarrow> xml_node" where
  "asset_element i p =
     Element ''Asset''
       [Element ''Id'' [Text i],
        Element ''ChunkList'' [Element ''Chunk'' [Element ''Path'' [Text p]]]]"

definition asset_map_document :: "xml_node list \<Rightarrow> xml_doc" where
  "asset_map_document children = [Element ''AssetMap'' [Element ''AssetList'' children]]"

definition example_id :: string where
  "example_id = ''8e2c1a4e-7b3d-4f1a-9c2e-1234567890ab''"

definition example_uuid :: uuid where
  "example_uuid =
     [0x8e, 0x2c, 0x1a, 0x4e, 0x7b, 0x3d, 0x4f, 0x1a, 0x9c, 0x2e, 0x12, 0x34, 0x56, 0x78, 0x90, 0xab]"

text \<open>
  The heap in which \<^verbatim>\<open>imf_asset_map_alloc\<close> has made an empty registry, at
  address 0, and nothing else lives.
\<close>

definition registry_heap :: heap where
  "registry_heap = snd (imf_asset_map_alloc empty_heap)"

text \<open>
  An open in which every collaborator succeeds and the XML reader answers \<open>d\<close>.
\<close>

definition io_ok :: "xmlDocPtr \<Rightarrow> io_env" where
  "io_ok d = \<lparr>cpl_ret = 0, open_ret = 0, read_ret = 0, at_eof = True, buf_len = 1, xml_doc = d\<rparr>"

section \<open>Properties\<close>

subsection \<open>One pass of the loop, and the loop\<close>


















lemma loop_stuck_aux:
  "asset_loop d b a hh n = Some r \<Longrightarrow>
     (\<forall>p. n = Some p \<longrightarrow> asset_body d b a hh p \<noteq> Next hh (Some p))"
proof (induction d b a hh n r rule: asset_loop.raw_induct [rotated 1, consumes 1])
  case (1 loop d b a hh n r)
  show ?case
  proof (intro allI impI notI)
    fix p assume n: "n = Some p" and st: "asset_body d b a hh p = Next hh (Some p)"
    then have "loop d b a hh (Some p) = Some r" using 1(2) by simp
    from 1(1) [OF this] st show False by simp
  qed
qed

lemma loop_stuck:
  assumes "asset_body doc base am h p = Next h (Some p)"
  shows "asset_loop doc base am h (Some p) = None"
  using loop_stuck_aux [of doc base am h "Some p"] assms
  by (cases "asset_loop doc base am h (Some p)") auto


lemma non_asset_never_returns:
  assumes "av_strcasecmp (node_name doc p) ''Asset'' \<noteq> 0"
  shows "asset_loop doc base am h (Some p) = None"
  using assms by (intro loop_stuck) (simp add: asset_body_def)

lemma find_element_None: "\<not> list_ex is_element ns \<Longrightarrow> find_element ns k = None"
  by (induction ns arbitrary: k) auto


lemma AVERROR_INVALIDDATA_value: "AVERROR_INVALIDDATA = - 1094995529"
  by (simp add: AVERROR_INVALIDDATA_def MKTAG_def)

subsection \<open>The entries a run appends\<close>










subsection \<open>Release\<close>













text \<open>
  An Asset Map path without a \<^verbatim>\<open>'/'\<close>: the base directory is the literal
  \<^verbatim>\<open>"."\<close>, the copy of the path made at line 168 (block 1) is never released,
  and \<^verbatim>\<open>imf_close\<close> faults at \<^verbatim>\<open>av_freep(&c->base_url)\<close>.
\<close>

lemma literal_base_directory:
  "(case imf_read_header (snd (av_malloc empty_heap (Bytes ''ASSETMAP.xml'')))
           (new_context\<lparr>asset_map_path := Some 0\<rparr>)
           (io_ok (Some (asset_map_document [asset_element example_id ''a.mxf''])))
           ''CPL.xml'' of
      Some (Returns (ret, h, c)) \<Rightarrow>
        ret = 0 \<and> base_url c = Some (StaticStr ''.'') \<and>
        cells h 1 = Some (Bytes ''ASSETMAP.xml'') \<and>
        registry_view h (asset_map c) = Some [(example_uuid, ''./a.mxf'')] \<and>
        (case imf_close h c of Faults f \<Rightarrow> f = BadPointer | Returns x \<Rightarrow> False)
    | _ \<Rightarrow> False)"
  by code_simp

subsection \<open>The claims\<close>

text \<open>
  C1. A well-formed Asset Map with N assets should parse to a registry of count N, in
  document order. With three assets it does. With four, the array was reallocated to
  \<^verbatim>\<open>asset_count + 1 * sizeof(IMFAssetLocator)\<close> = 3 + 24 bytes, room for three
  pointers, and the store of the fourth pointer at index 3 is past the end of the block:
  the run faults.
\<close>

theorem fourth_asset_overflows_array:
  "(case parse_imf_asset_map_from_xml_dom registry_heap
           (Some (asset_map_document
              [asset_element example_id ''a.mxf'', asset_element example_id ''b.mxf'',
               asset_element example_id ''c.mxf''])) (Some 0) ''/pkg'' of
      Some (Returns (ret, h)) \<Rightarrow>
        ret = 0 \<and> registry_count h (Some 0) = Some 3 \<and>
        registry_view h (Some 0) =
          Some [(example_uuid, ''/pkg/a.mxf''), (example_uuid, ''/pkg/b.mxf''),
                (example_uuid, ''/pkg/c.mxf'')]
    | _ \<Rightarrow> False) \<and>
   (case parse_imf_asset_map_from_xml_dom registry_heap
           (Some (asset_map_document
              [asset_element example_id ''a.mxf'', asset_element example_id ''b.mxf'',
               asset_element example_id ''c.mxf'', asset_element example_id ''d.mxf'']))
           (Some 0) ''/pkg'' of
      Some (Faults f) \<Rightarrow> f = OutOfBounds
    | _ \<Rightarrow> False)"
  by code_simp

text \<open>
  C2. The iteration over the children of \<^verbatim>\<open>AssetList\<close> should skip a child
  that is not an \<^verbatim>\<open>Asset\<close> and go on. It does not: the
  \<^verbatim>\<open>continue\<close> of line 94 leaves \<open>node\<close> where it is, and the function
  never returns, whether the child comes first or after an asset.
\<close>

theorem non_asset_child_loops_forever:
  "parse_imf_asset_map_from_xml_dom registry_heap
     (Some (asset_map_document [Element ''Foo'' []])) (Some 0) ''/pkg'' = None \<and>
   parse_imf_asset_map_from_xml_dom registry_heap
     (Some (asset_map_document [asset_element example_id ''a.mxf'', Element ''Foo'' []]))
     (Some 0) ''/pkg'' = None"
proof
  have tag: "av_strcasecmp (node_name (asset_map_document [Element ''Foo'' []]) [0, 0, 0]) ''Asset'' \<noteq> 0"
    by code_simp
  have "parse_imf_asset_map_from_xml_dom registry_heap
     (Some (asset_map_document [Element ''Foo'' []])) (Some 0) ''/pkg''
     = asset_loop (asset_map_document [Element ''Foo'' []]) ''/pkg'' (Some 0) registry_heap
         (Some [0, 0, 0])"
    by (simp add: parse_imf_asset_map_from_xml_dom_def xmlDocGetRootElement_def
        is_element_node_def node_at_def node_name_def av_tolower_def
        xml_get_child_element_by_name_def xmlFirstElementChild_def asset_map_document_def)
  then show "parse_imf_asset_map_from_xml_dom registry_heap
     (Some (asset_map_document [Element ''Foo'' []])) (Some 0) ''/pkg'' = None"
    using non_asset_never_returns [OF tag] by simp
next
  define doc where
    "doc = asset_map_document [asset_element example_id ''a.mxf'', Element ''Foo'' []]"
  have tag: "av_strcasecmp (node_name doc [0, 0, 1]) ''Asset'' \<noteq> 0"
    unfolding doc_def by code_simp
  have p: "parse_imf_asset_map_from_xml_dom registry_heap (Some doc) (Some 0) ''/pkg''
     = asset_loop doc ''/pkg'' (Some 0) registry_heap (Some [0, 0, 0])"
    by (simp add: parse_imf_asset_map_from_xml_dom_def xmlDocGetRootElement_def
        is_element_node_def node_at_def node_name_def av_tolower_def
        xml_get_child_element_by_name_def xmlFirstElementChild_def asset_map_document_def
        asset_element_def doc_def)
  have "case asset_body doc ''/pkg'' (Some 0) registry_heap [0, 0, 0] of
      Stop r \<Rightarrow> False | Next h' n' \<Rightarrow> n' = Some [0, 0, 1]"
    unfolding doc_def by code_simp
  then obtain h1 where
    b: "asset_body doc ''/pkg'' (Some 0) registry_heap [0, 0, 0] = Next h1 (Some [0, 0, 1])"
    by (auto split: loop_step.splits)
  have "asset_loop doc ''/pkg'' (Some 0) registry_heap (Some [0, 0, 0])
      = asset_loop doc ''/pkg'' (Some 0) h1 (Some [0, 0, 1])"
    by (subst asset_loop.simps) (simp add: b)
  with p non_asset_never_returns [OF tag]
  show "parse_imf_asset_map_from_xml_dom registry_heap
     (Some (asset_map_document [asset_element example_id ''a.mxf'', Element ''Foo'' []]))
     (Some 0) ''/pkg'' = None"
    unfolding doc_def by simp
qed

text \<open>
  C3. An asset whose \<^verbatim>\<open>Id\<close> is missing, empty or undecodable should make the
  parse fail and the open return an error. The parse returns 1, not
  \<^verbatim>\<open>AVERROR_INVALIDDATA\<close>; \<^verbatim>\<open>imf_read_header\<close> tests
  \<^verbatim>\<open>ret < 0\<close>, so in each of the three cases the open returns 0, with an empty
  registry.
\<close>

theorem bad_id_open_succeeds:
  "(case parse_imf_asset_map_from_xml_dom registry_heap
           (Some (asset_map_document [asset_element ''not-a-uuid'' ''a.mxf''])) (Some 0) ''/pkg'' of
      Some (Returns (ret, h)) \<Rightarrow> ret = 1
    | _ \<Rightarrow> False) \<and>
   (case imf_read_header empty_heap new_context
           (io_ok (Some (asset_map_document [asset_element ''not-a-uuid'' ''a.mxf''])))
           ''/pkg/CPL.xml'' of
      Some (Returns (ret, h, c)) \<Rightarrow> ret = 0 \<and> registry_view h (asset_map c) = Some []
    | _ \<Rightarrow> False) \<and>
   (case imf_read_header empty_heap new_context
           (io_ok (Some (asset_map_document [asset_element [] ''a.mxf''])))
           ''/pkg/CPL.xml'' of
      Some (Returns (ret, h, c)) \<Rightarrow> ret = 0 \<and> registry_view h (asset_map c) = Some []
    | _ \<Rightarrow> False) \<and>
   (case imf_read_header empty_heap new_context
           (io_ok (Some (asset_map_document
              [Element ''Asset''
                 [Element ''ChunkList'' [Element ''Chunk'' [Element ''Path'' [Text ''a.mxf'']]]]])))
           ''/pkg/CPL.xml'' of
      Some (Returns (ret, h, c)) \<Rightarrow> ret = 0 \<and> registry_view h (asset_map c) = Some []
    | _ \<Rightarrow> False)"
  by code_simp

text \<open>
  C4. Each schema failure should return \<^verbatim>\<open>AVERROR_INVALIDDATA\<close> and leave no
  allocation behind. With the \<^verbatim>\<open>ChunkList\<close> missing, or the
  \<^verbatim>\<open>Chunk\<close> missing, the function returns that code and the locator allocated
  at line 97 is still live: the heap that held one block, the registry, holds two.
\<close>

theorem missing_chunk_leaks_locator:
  "live registry_heap = [0] \<and>
   (case parse_imf_asset_map_from_xml_dom registry_heap
           (Some (asset_map_document [Element ''Asset'' [Element ''Id'' [Text example_id]]]))
           (Some 0) ''/pkg'' of
      Some (Returns (ret, h)) \<Rightarrow>
        ret = AVERROR_INVALIDDATA \<and> live h = [0, 1] \<and>
        cells h 1 = Some (IMFAssetLocator example_uuid None)
    | _ \<Rightarrow> False) \<and>
   (case parse_imf_asset_map_from_xml_dom registry_heap
           (Some (asset_map_document
              [Element ''Asset'' [Element ''Id'' [Text example_id], Element ''ChunkList'' []]]))
           (Some 0) ''/pkg'' of
      Some (Returns (ret, h)) \<Rightarrow>
        ret = AVERROR_INVALIDDATA \<and> live h = [0, 1] \<and>
        cells h 1 = Some (IMFAssetLocator example_uuid None)
    | _ \<Rightarrow> False)"
  by code_simp

text \<open>
  C5. An asset whose \<^verbatim>\<open>Chunk\<close> has no \<^verbatim>\<open>Path\<close>, or whose
  \<^verbatim>\<open>Path\<close> is empty or blank, should make the parse fail. Lines 117-120 test
  nothing: in each of the three cases the function returns 0 and the registry has an entry,
  whose locator is made of the base directory.
\<close>

theorem missing_path_makes_entry:
  "(case parse_imf_asset_map_from_xml_dom registry_heap
           (Some (asset_map_document [asset_element example_id []])) (Some 0) ''/pkg'' of
      Some (Returns (ret, h)) \<Rightarrow>
        ret = 0 \<and> registry_view h (Some 0) = Some [(example_uuid, ''/pkg'')]
    | _ \<Rightarrow> False) \<and>
   (case parse_imf_asset_map_from_xml_dom registry_heap
           (Some (asset_map_document [asset_element example_id ''  ''])) (Some 0) ''/pkg'' of
      Some (Returns (ret, h)) \<Rightarrow>
        ret = 0 \<and> registry_view h (Some 0) = Some [(example_uuid, ''/pkg/  '')]
    | _ \<Rightarrow> False) \<and>
   (case parse_imf_asset_map_from_xml_dom registry_heap
           (Some (asset_map_document
              [Element ''Asset''
                 [Element ''Id'' [Text example_id],
                  Element ''ChunkList'' [Element ''Chunk'' []]]])) (Some 0) ''/pkg'' of
      Some (Returns (ret, h)) \<Rightarrow>
        ret = 0 \<and> registry_view h (Some 0) = Some [(example_uuid, ''/pkg'')]
    | _ \<Rightarrow> False)"
  by code_simp




text \<open>
  C7. Release should free the registry and every entry, and be a no-op on a null or an
  already released registry. After an open with one asset, the first
  \<^verbatim>\<open>imf_close\<close> frees the base directory, the locator, the array and the
  registry (the strings at 4 and 6, the content of \<^verbatim>\<open>Path\<close> and the
  \<^verbatim>\<open>absolute_uri\<close>, stay live); the context still holds the pointer to the
  registry, and the second \<^verbatim>\<open>imf_close\<close> reads the freed block: a fault.
  Releasing a fresh registry twice through the same pointer faults in the same way.
\<close>

theorem second_release_faults:
  "(case imf_read_header empty_heap new_context
           (io_ok (Some (asset_map_document [asset_element example_id ''a.mxf''])))
           ''/pkg/CPL.xml'' of
      Some (Returns (ret, h, c)) \<Rightarrow>
        ret = 0 \<and> live h = [0, 1, 2, 3, 4, 6, 7] \<and>
        (case imf_close h c of
           Returns (r1, h1, c1) \<Rightarrow>
             r1 = 0 \<and> live h1 = [0, 4, 6] \<and> asset_map c1 = Some 2 \<and>
             (case imf_close h1 c1 of Faults f \<Rightarrow> f = BadPointer | Returns x \<Rightarrow> False)
         | Faults f \<Rightarrow> False)
    | _ \<Rightarrow> False) \<and>
   (case imf_asset_map_alloc empty_heap of
      (m, h) \<Rightarrow>
        (case imf_asset_map_free h m of
           Returns h1 \<Rightarrow>
             live h1 = [] \<and>
             (case imf_asset_map_free h1 m of Faults f \<Rightarrow> f = BadPointer | Returns x \<Rightarrow> False)
         | Faults f \<Rightarrow> False))"
  by code_simp

text \<open>
  C8. For every state of the demuxer context and every packet-read request,
  \<^verbatim>\<open>ff_imf_read_packet\<close> returns \<^verbatim>\<open>AVERROR_EOF\<close>, a negative
  value, and leaves the context and the packet as they were: no packet is ever produced.
\<close>

theorem read_packet_always_eof:
  "ff_imf_read_packet s pkt = (AVERROR_EOF, s, pkt) \<and> AVERROR_EOF = - 541478725"
  by (simp add: ff_imf_read_packet_def AVERROR_EOF_def MKTAG_def)

text \<open>
  C9. A null document is handled as the missing-root case: the function returns
  \<^verbatim>\<open>AVERROR_INVALIDDATA\<close> with the heap, and so the registry, as it was; a
  document without a root element gets the same answer.
\<close>

theorem null_document_is_missing_root:
  "parse_imf_asset_map_from_xml_dom h None am base = Some (Returns (AVERROR_INVALIDDATA, h)) \<and>
   (\<not> list_ex is_element ns \<longrightarrow>
      parse_imf_asset_map_from_xml_dom h (Some ns) am base = Some (Returns (AVERROR_INVALIDDATA, h)))"
  by (simp add: parse_imf_asset_map_from_xml_dom_def xmlDocGetRootElement_def find_element_None)

theorem null_document_is_missing_root_witness:
  "\<not> list_ex is_element [Comment ''no root'', Text '' ''] \<and>
   parse_imf_asset_map_from_xml_dom registry_heap None (Some 0) ''/pkg''
     = Some (Returns (- 1094995529, registry_heap)) \<and>
   parse_imf_asset_map_from_xml_dom registry_heap (Some [Comment ''no root'', Text '' '']) (Some 0) ''/pkg''
     = Some (Returns (- 1094995529, registry_heap))"
  using null_document_is_missing_root [of registry_heap "Some 0" "''/pkg''" "[Comment ''no root'', Text '' '']"]
  by (simp add: AVERROR_INVALIDDATA_value)



end
